theory Spec2Isabelle
  imports Complex_Main "HOL-Library.Word" "HOL-Library.Stream"
begin

section \<open>Event-study statistics of stock-analysis-app.cpp\<close>

text \<open>
  The development embeds the classes \<^verbatim>\<open>Stock\<close> and \<^verbatim>\<open>Group\<close> and the method
  \<^verbatim>\<open>StockAnalyzer::performBootstrapping\<close> of \<^verbatim>\<open>src/stock-analysis-app.cpp\<close>.

  Conventions of the embedding:
  \<^item> a \<^verbatim>\<open>double\<close> is read as a \<^typ>\<open>real\<close>: the arithmetic inside the methods is
    exact, so its rounding, overflow to infinity and NaN are outside the model; a product
    of doubles that a caller forms before it stores the result in a stock is rounded as
    IEEE 754 prescribes;
  \<^item> a \<^verbatim>\<open>std::vector\<close> is a list and a \<^verbatim>\<open>size_t\<close> that holds a vector's size is a
    \<^typ>\<open>nat\<close>; an \<^verbatim>\<open>int\<close> is a \<^typ>\<open>32 word\<close> read through \<^const>\<open>sint\<close>, and its
    conversion to \<^verbatim>\<open>size_t\<close> is the sign extension to a \<^typ>\<open>64 word\<close> read through
    \<^const>\<open>unat\<close>;
  \<^item> a \<^verbatim>\<open>Stock*\<close> is an address, and the objects it may point to are given by a heap;
  \<^item> a C++ exception that leaves a method is the \<^verbatim>\<open>Inl\<close> branch of a sum; memory is
    not a resource of the model, so an allocation fails only when the request exceeds
    \<^verbatim>\<open>max_size()\<close>.
\<close>

subsection \<open>Stock\<close>

record Stock =
  symbol :: string
  epsEstimate :: real
  actualEPS :: real
  earningsDate :: string
  prices :: "real list"
  returns :: "real list"
  abnormalReturns :: "real list"

text \<open>
  \<^verbatim>\<open>calculateAbnormalReturns\<close>: the vector is cleared, then the loop
  \<^verbatim>\<open>for (i = 0; i < returns.size() && i < marketReturns.size(); i++)\<close> pushes
  \<^verbatim>\<open>returns[i] - marketReturns[i]\<close>. The loop carries the index and the vector built so far.
\<close>

function abnormal_loop :: "nat \<Rightarrow> real list \<Rightarrow> real list \<Rightarrow> real list \<Rightarrow> real list" where
  "abnormal_loop i rets marketReturns acc =
     (if i < length rets \<and> i < length marketReturns
      then abnormal_loop (Suc i) rets marketReturns (acc @ [rets ! i - marketReturns ! i])
      else acc)"
  by pat_completeness auto
termination
  by (relation "measure (\<lambda>(i, rets, marketReturns, acc). length rets - i)") auto

declare abnormal_loop.simps [simp del]

definition calculateAbnormalReturns :: "real list \<Rightarrow> Stock \<Rightarrow> Stock" where
  "calculateAbnormalReturns marketReturns s =
     s\<lparr>abnormalReturns := abnormal_loop 0 (returns s) marketReturns []\<rparr>"

text \<open>\<^verbatim>\<open>getSurprisePercentage\<close> and \<^verbatim>\<open>getGroup\<close>, with the source's branch order.\<close>

definition getSurprisePercentage :: "Stock \<Rightarrow> real" where
  "getSurprisePercentage s =
     (if epsEstimate s \<noteq> 0
      then (actualEPS s - epsEstimate s) / \<bar>epsEstimate s\<bar> * 100
      else 0)"

definition getGroup :: "Stock \<Rightarrow> string" where
  "getGroup s =
     (let surprise = getSurprisePercentage s
      in if surprise > 5 then ''Beat''
         else if surprise < - 5 then ''Miss''
         else ''Meet'')"

text \<open>The constructor \<^verbatim>\<open>Stock(sym, eps, actual, date)\<close>: the three vectors start empty.\<close>

definition new_Stock :: "string \<Rightarrow> real \<Rightarrow> real \<Rightarrow> string \<Rightarrow> Stock" where
  "new_Stock symb eps actual date =
     \<lparr>symbol = symb, epsEstimate = eps, actualEPS = actual, earningsDate = date,
      prices = [], returns = [], abnormalReturns = []\<rparr>"

subsection \<open>Products of doubles\<close>





subsection \<open>Machine sizes and vectors\<close>

text \<open>
  An \<^verbatim>\<open>int\<close> that meets a \<^verbatim>\<open>size_t\<close> in a comparison, or is passed where a
  \<^verbatim>\<open>size_t\<close> is expected, is converted to 64 bits with its sign extended; a
  \<^verbatim>\<open>size_t\<close> stored into an \<^verbatim>\<open>int\<close> keeps its low 32 bits.
\<close>

definition size_t_of_int :: "32 word \<Rightarrow> nat" where
  "size_t_of_int i = unat (scast i :: 64 word)"

definition int_of_size_t :: "nat \<Rightarrow> 32 word" where
  "int_of_size_t n = word_of_nat n"

definition SIZE_MAX :: nat where
  "SIZE_MAX = 2 ^ 64 - 1"

text \<open>
  \<^verbatim>\<open>std::vector<T>::max_size()\<close> for an element of \<open>elem_bytes\<close> bytes, as the GNU
  library computes it on a 64-bit target: \<^verbatim>\<open>PTRDIFF_MAX / sizeof(T)\<close>. A \<^verbatim>\<open>double\<close>
  and a pointer take 8 bytes, a \<^verbatim>\<open>std::vector<double>\<close> takes 24.
\<close>

definition max_size :: "nat \<Rightarrow> nat" where
  "max_size elem_bytes = (2 ^ 63 - 1) div elem_bytes"

datatype error = LengthError

text \<open>
  \<^verbatim>\<open>v.resize(n, x)\<close>: a request beyond \<^verbatim>\<open>max_size()\<close> throws \<^verbatim>\<open>std::length_error\<close>;
  otherwise the vector is cut to \<open>n\<close> elements, or extended by copies of \<open>x\<close>, and the
  elements it already holds stay as they are.
\<close>

definition resize :: "nat \<Rightarrow> nat \<Rightarrow> 'a \<Rightarrow> 'a list \<Rightarrow> error + 'a list" where
  "resize elem_bytes n x v =
     (if max_size elem_bytes < n then Inl LengthError
      else if n \<le> length v then Inr (take n v)
      else Inr (v @ replicate (n - length v) x))"

subsection \<open>Group\<close>

type_synonym stock_ptr = nat

type_synonym heap = "stock_ptr \<Rightarrow> Stock"

record Group =
  name :: string
  stocks :: "stock_ptr list"
  aar :: "real list"
  caar :: "real list"

definition new_Group :: "string \<Rightarrow> Group" where
  "new_Group groupName = \<lparr>name = groupName, stocks = [], aar = [], caar = []\<rparr>"

definition addStock :: "stock_ptr \<Rightarrow> Group \<Rightarrow> Group" where
  "addStock stock g = g\<lparr>stocks := stocks g @ [stock]\<rparr>"

text \<open>
  \<^verbatim>\<open>calculateAAR\<close>. An empty group returns at once. Otherwise \<^verbatim>\<open>daysCount\<close>, an
  \<^verbatim>\<open>int\<close>, takes the size of the first member's abnormal returns; \<^verbatim>\<open>aar\<close> is resized
  to it (not cleared); every member adds its abnormal returns to \<^verbatim>\<open>aar\<close> for the days
  \<^verbatim>\<open>day < daysCount && day < stock->abnormalReturns.size()\<close>; every day is then divided
  by \<^verbatim>\<open>stocks.size()\<close>.
\<close>

definition add_stock_days :: "heap \<Rightarrow> nat \<Rightarrow> stock_ptr \<Rightarrow> real list \<Rightarrow> real list" where
  "add_stock_days h daysCount stock a =
     fold (\<lambda>day a. a[day := a ! day + abnormalReturns (h stock) ! day])
       [0..<min daysCount (length (abnormalReturns (h stock)))] a"

definition calculateAAR :: "heap \<Rightarrow> Group \<Rightarrow> error + Group" where
  "calculateAAR h g =
     (if stocks g = [] then Inr g
      else
        let daysCount = int_of_size_t (length (abnormalReturns (h (stocks g ! 0))))
        in (case resize 8 (size_t_of_int daysCount) 0 (aar g) of
              Inl e \<Rightarrow> Inl e
            | Inr a0 \<Rightarrow>
                (let a1 = fold (add_stock_days h (size_t_of_int daysCount)) (stocks g) a0;
                     a2 = fold (\<lambda>day a. a[day := a ! day / real (length (stocks g))])
                            [0..<size_t_of_int daysCount] a1
                 in Inr (g\<lparr>aar := a2\<rparr>))))"

text \<open>
  \<^verbatim>\<open>calculateCAAR\<close>: \<^verbatim>\<open>caar\<close> is cleared and the loop over \<^verbatim>\<open>aar\<close> pushes the running
  sum, which starts at 0.
\<close>

fun caar_loop :: "real list \<Rightarrow> real \<Rightarrow> real list \<Rightarrow> real list" where
  "caar_loop [] cumulative acc = acc"
| "caar_loop (dailyAAR # rest) cumulative acc =
     caar_loop rest (cumulative + dailyAAR) (acc @ [cumulative + dailyAAR])"

definition calculateCAAR :: "Group \<Rightarrow> Group" where
  "calculateCAAR g = g\<lparr>caar := caar_loop (aar g) 0 []\<rparr>"

text \<open>
  \<^verbatim>\<open>sampleStocks\<close>. The test \<^verbatim>\<open>stocks.size() <= sampleSize\<close> compares a \<^verbatim>\<open>size_t\<close>
  with an \<^verbatim>\<open>int\<close>. Past it, a seed is read from \<^verbatim>\<open>std::random_device\<close>, the copy
  of the members is shuffled and its first \<^verbatim>\<open>sampleSize\<close> elements are the sample. The
  random device is the stream of the seeds it will deliver; what \<^verbatim>\<open>std::shuffle\<close> does
  with a generator seeded so is a parameter.
\<close>

type_synonym random_device = "32 word stream"

type_synonym shuffle_fn = "32 word \<Rightarrow> stock_ptr list \<Rightarrow> stock_ptr list"

definition sampleStocks ::
  "shuffle_fn \<Rightarrow> Group \<Rightarrow> 32 word \<Rightarrow> random_device \<Rightarrow> stock_ptr list \<times> random_device" where
  "sampleStocks shuffle g sampleSize rd =
     (if length (stocks g) \<le> size_t_of_int sampleSize then (stocks g, rd)
      else
        let stocksCopy = shuffle (shd rd) (stocks g)
        in (take (nat (sint sampleSize)) stocksCopy, stl rd))"

subsection \<open>Bootstrapping\<close>

record StockAnalyzer =
  beatGroup :: Group
  meetGroup :: Group
  missGroup :: Group

text \<open>
  One pass of the first loop of \<^verbatim>\<open>performBootstrapping\<close>: the three samples are drawn
  in the order Beat, Meet, Miss, the temporary groups are filled with \<^verbatim>\<open>addStock\<close>, and
  the result is the \<^verbatim>\<open>caar\<close> of each.
\<close>

definition bootstrap_iteration ::
  "shuffle_fn \<Rightarrow> heap \<Rightarrow> StockAnalyzer \<Rightarrow> 32 word \<Rightarrow> random_device \<Rightarrow>
     error + ((real list \<times> real list \<times> real list) \<times> random_device)" where
  "bootstrap_iteration shuffle h an sampleSize rd =
     (let (beatSample, rd1) = sampleStocks shuffle (beatGroup an) sampleSize rd;
          (meetSample, rd2) = sampleStocks shuffle (meetGroup an) sampleSize rd1;
          (missSample, rd3) = sampleStocks shuffle (missGroup an) sampleSize rd2;
          tempBeatGroup = fold addStock beatSample (new_Group ''TempBeat'');
          tempMeetGroup = fold addStock meetSample (new_Group ''TempMeet'');
          tempMissGroup = fold addStock missSample (new_Group ''TempMiss'')
      in case calculateAAR h tempBeatGroup of
           Inl e \<Rightarrow> Inl e
         | Inr gb \<Rightarrow>
             (case calculateAAR h tempMeetGroup of
                Inl e \<Rightarrow> Inl e
              | Inr gm \<Rightarrow>
                  (case calculateAAR h tempMissGroup of
                     Inl e \<Rightarrow> Inl e
                   | Inr gs \<Rightarrow>
                       Inr ((caar (calculateCAAR gb), caar (calculateCAAR gm),
                             caar (calculateCAAR gs)), rd3))))"

text \<open>The loop \<^verbatim>\<open>for (int i = 0; i < iterations; i++)\<close>, over the values \<open>i\<close> takes.\<close>

fun bootstrap_loop ::
  "shuffle_fn \<Rightarrow> heap \<Rightarrow> StockAnalyzer \<Rightarrow> 32 word \<Rightarrow> nat list \<Rightarrow>
     real list list \<times> real list list \<times> real list list \<Rightarrow> random_device \<Rightarrow>
     error + ((real list list \<times> real list list \<times> real list list) \<times> random_device)" where
  "bootstrap_loop shuffle h an sampleSize [] caars rd = Inr (caars, rd)"
| "bootstrap_loop shuffle h an sampleSize (i # is) (beatCAARs, meetCAARs, missCAARs) rd =
     (case bootstrap_iteration shuffle h an sampleSize rd of
        Inl e \<Rightarrow> Inl e
      | Inr ((b, m, s), rd') \<Rightarrow>
          bootstrap_loop shuffle h an sampleSize is
            (beatCAARs[i := b], meetCAARs[i := m], missCAARs[i := s]) rd')"

text \<open>
  The second half of \<^verbatim>\<open>performBootstrapping\<close>, which treats the three groups alike:
  the minimum size, starting from \<^verbatim>\<open>SIZE_MAX\<close>; the sum over the iterations; the division
  by \<^verbatim>\<open>iterations\<close>.
\<close>

definition min_caar_size :: "real list list \<Rightarrow> nat" where
  "min_caar_size caars = fold (\<lambda>caar m. min m (length caar)) caars SIZE_MAX"

definition sum_caars :: "real list list \<Rightarrow> 32 word \<Rightarrow> nat \<Rightarrow> real list \<Rightarrow> real list" where
  "sum_caars caars iterations minSize avg =
     fold (\<lambda>i avg. fold (\<lambda>day a. a[day := a ! day + caars ! i ! day]) [0..<minSize] avg)
       [0..<nat (sint iterations)] avg"

definition divide_caar :: "32 word \<Rightarrow> nat \<Rightarrow> real list \<Rightarrow> real list" where
  "divide_caar iterations minSize avg =
     fold (\<lambda>day a. a[day := a ! day / real_of_int (sint iterations)]) [0..<minSize] avg"

text \<open>
  \<^verbatim>\<open>performBootstrapping\<close>. The three vectors of \<^verbatim>\<open>iterations\<close> empty vectors are
  built first, and the constructor throws \<^verbatim>\<open>std::length_error\<close> beyond
  \<^verbatim>\<open>max_size()\<close>. The value is the three averaged sequences, which the method then
  prints to \<^verbatim>\<open>bootstrapped_caar.csv\<close>, and the random device as the draws left it.
\<close>

definition performBootstrapping ::
  "shuffle_fn \<Rightarrow> heap \<Rightarrow> StockAnalyzer \<Rightarrow> 32 word \<Rightarrow> 32 word \<Rightarrow> random_device \<Rightarrow>
     error + ((real list \<times> real list \<times> real list) \<times> random_device)" where
  "performBootstrapping shuffle h an sampleSize iterations rd =
     (if max_size 24 < size_t_of_int iterations then Inl LengthError
      else
        let init = replicate (size_t_of_int iterations) []
        in case bootstrap_loop shuffle h an sampleSize [0..<nat (sint iterations)]
                  (init, init, init) rd of
             Inl e \<Rightarrow> Inl e
           | Inr ((beatCAARs, meetCAARs, missCAARs), rd') \<Rightarrow>
               (let minBeatSize = min_caar_size beatCAARs;
                    minMeetSize = min_caar_size meetCAARs;
                    minMissSize = min_caar_size missCAARs
                in (case resize 8 minBeatSize 0 [] of
                      Inl e \<Rightarrow> Inl e
                    | Inr avgBeat0 \<Rightarrow>
                        (case resize 8 minMeetSize 0 [] of
                           Inl e \<Rightarrow> Inl e
                         | Inr avgMeet0 \<Rightarrow>
                             (case resize 8 minMissSize 0 [] of
                                Inl e \<Rightarrow> Inl e
                              | Inr avgMiss0 \<Rightarrow>
                                  Inr ((divide_caar iterations minBeatSize
                                          (sum_caars beatCAARs iterations minBeatSize avgBeat0),
                                        divide_caar iterations minMeetSize
                                          (sum_caars meetCAARs iterations minMeetSize avgMeet0),
                                        divide_caar iterations minMissSize
                                          (sum_caars missCAARs iterations minMissSize avgMiss0)),
                                       rd'))))))"

subsection \<open>The specification's formula for the average abnormal return\<close>

text \<open>
  Written from the specification, to be compared with what \<^const>\<open>calculateAAR\<close> stores:
  on day \<open>d\<close>, the sum over all members of the member's abnormal return of that day, or
  of 0 when the member has no such day, divided by the number of members.
\<close>

definition aar_formula :: "heap \<Rightarrow> stock_ptr list \<Rightarrow> nat \<Rightarrow> real" where
  "aar_formula h members d =
     (\<Sum>m\<leftarrow>members. if d < length (abnormalReturns (h m))
                    then abnormalReturns (h m) ! d else 0) /
     real (length members)"

subsection \<open>The invariant of the first loop of performBootstrapping\<close>

text \<open>
  The vector of the per-iteration sequences keeps its \<open>n\<close> slots, and every sequence in
  it is no longer than a vector of \<^verbatim>\<open>double\<close> can be.
\<close>

definition caars_ok :: "nat \<Rightarrow> real list list \<Rightarrow> bool" where
  "caars_ok n cs \<longleftrightarrow> length cs = n \<and> (\<forall>c\<in>set cs. length c \<le> max_size 8)"

subsection \<open>Example objects\<close>

text \<open>A heap in which every address holds a stock with the one abnormal return 1.\<close>

definition unit_heap :: heap where
  "unit_heap = (\<lambda>p. (new_Stock ''U'' 1 1 ''d'')\<lparr>abnormalReturns := [1]\<rparr>)"

text \<open>
  The heap of the two-member scenario: address 0 has abnormal returns 0.01, 0.02 and
  every other address 0.03, 0.02.
\<close>

definition pair_heap :: heap where
  "pair_heap =
     (\<lambda>p. if p = 0 then (new_Stock ''A'' 1 1 ''d'')\<lparr>abnormalReturns := [1 / 100, 2 / 100]\<rparr>
          else (new_Stock ''B'' 1 1 ''d'')\<lparr>abnormalReturns := [3 / 100, 2 / 100]\<rparr>)"

definition group_of :: "stock_ptr list \<Rightarrow> Group" where
  "group_of ps = fold addStock ps (new_Group ''G'')"

text \<open>
  A heap in which every address holds a stock with \<open>2^31\<close> abnormal returns, one more
  than an \<^verbatim>\<open>int\<close> can count.
\<close>

definition long_heap :: heap where
  "long_heap = (\<lambda>p. (new_Stock ''L'' 1 1 ''d'')\<lparr>abnormalReturns := replicate (2 ^ 31) 0\<rparr>)"


text \<open>A shuffle that reverses, whatever the seed, and a random device that delivers zeros.\<close>

definition rev_shuffle :: shuffle_fn where
  "rev_shuffle seed ps = rev ps"

definition zero_device :: random_device where
  "zero_device = sconst 0"

definition analyzer_of :: "stock_ptr list \<Rightarrow> stock_ptr list \<Rightarrow> stock_ptr list \<Rightarrow> StockAnalyzer" where
  "analyzer_of bs ms ss =
     \<lparr>beatGroup = fold addStock bs (new_Group ''Beat''),
      meetGroup = fold addStock ms (new_Group ''Meet''),
      missGroup = fold addStock ss (new_Group ''Miss'')\<rparr>"

section \<open>Properties\<close>

subsection \<open>Conversions between int and size_t\<close>

lemma sint_32_range: "- (2 ^ 31) \<le> sint (i :: 32 word) \<and> sint i < 2 ^ 31"
  using sint_ge [of i] sint_lt [of i] by simp

lemma size_t_of_int_eq:
  "size_t_of_int i = nat (sint i mod 2 ^ 64)"
  unfolding size_t_of_int_def scast_eq unat_eq_nat_uint uint_word_of_int
  by simp

lemma size_t_of_int_nonneg: "0 \<le> sint i \<Longrightarrow> size_t_of_int i = nat (sint i)"
proof -
  assume "0 \<le> sint i"
  moreover have "sint i < 2 ^ 64"
    using sint_32_range [of i] by simp
  ultimately have "sint i mod 2 ^ 64 = sint i"
    by (rule mod_pos_pos_trivial)
  then show ?thesis
    by (simp only: size_t_of_int_eq)
qed

lemma size_t_of_int_neg: "sint i < 0 \<Longrightarrow> size_t_of_int i = nat (2 ^ 64 + sint i)"
proof -
  assume neg: "sint i < 0"
  have "sint i mod 2 ^ 64 = (sint i + 2 ^ 64) mod 2 ^ 64"
    by (simp only: mod_add_self2)
  also have "\<dots> = sint i + 2 ^ 64"
  proof (rule mod_pos_pos_trivial)
    show "0 \<le> sint i + 2 ^ 64" using sint_32_range [of i] by simp
    show "sint i + 2 ^ 64 < 2 ^ 64" using neg by simp
  qed
  finally show ?thesis
    by (simp only: size_t_of_int_eq add.commute)
qed

lemma sint_int_of_size_t: "n < 2 ^ 31 \<Longrightarrow> sint (int_of_size_t n) = int n"
proof -
  assume n: "n < 2 ^ 31"
  have "sint (word_of_int (int n) :: 32 word) = (int n + 2 ^ 31) mod 2 ^ 32 - 2 ^ 31"
    by (simp only: int_word_sint) simp
  also have "(int n + 2 ^ 31) mod 2 ^ 32 = int n + 2 ^ 31"
  proof (rule mod_pos_pos_trivial)
    show "0 \<le> int n + 2 ^ 31" by simp
    show "int n + 2 ^ 31 < 2 ^ 32" using n by simp
  qed
  finally have "sint (word_of_int (int n) :: 32 word) = int n"
    by simp
  then show ?thesis
    by (simp only: int_of_size_t_def of_int_of_nat_eq)
qed

lemma size_t_of_int_of_size_t: "n < 2 ^ 31 \<Longrightarrow> size_t_of_int (int_of_size_t n) = n"
  by (simp add: size_t_of_int_nonneg sint_int_of_size_t)

lemma size_t_of_int_neg_large: "sint i < 0 \<Longrightarrow> 2 ^ 64 - 2 ^ 31 \<le> size_t_of_int i"
  using sint_32_range [of i] by (simp add: size_t_of_int_neg)

lemma size_t_of_int_0: "size_t_of_int 0 = 0"
  by (simp add: size_t_of_int_def)

lemma size_t_of_int_1: "size_t_of_int 1 = 1"
  by (simp add: size_t_of_int_def)

lemma size_t_of_int_minus_1: "size_t_of_int (- 1) = 18446744073709551615"
proof -
  have "sint (- 1 :: 32 word) < 0" by simp
  from size_t_of_int_neg [OF this] show ?thesis by simp
qed

lemma size_t_of_int_of_size_t_big:
  "size_t_of_int (int_of_size_t 2147483648) = 18446744071562067968"
proof -
  have "sint (int_of_size_t 2147483648) = - 2147483648"
    by (simp add: int_of_size_t_def)
  then show ?thesis
    by (simp add: size_t_of_int_neg)
qed

lemma max_size_8: "max_size 8 = 2 ^ 60 - 1"
  by (simp add: max_size_def)

lemma max_size_24: "max_size 24 = 384307168202282325"
  by (simp add: max_size_def)

subsection \<open>Loops that update a vector day by day\<close>

lemma fold_update_length:
  "length (fold (\<lambda>i a. a[i := f i a]) js a) = length a"
  by (induction js arbitrary: a) auto

lemma fold_update_nth:
  "d < length a \<Longrightarrow>
   fold (\<lambda>i a. a[i := f i (a ! i)]) [0..<n] a ! d = (if d < n then f d (a ! d) else a ! d)"
proof (induction n)
  case 0
  then show ?case by simp
next
  case (Suc n)
  show ?case
  proof (cases "d = n")
    case True
    with Suc show ?thesis by (simp add: fold_update_length)
  next
    case False
    with Suc show ?thesis by (simp add: fold_update_length)
  qed
qed

lemma caar_loop_eq:
  "caar_loop xs c acc = acc @ map (\<lambda>d. c + (\<Sum>k\<le>d. xs ! k)) [0..<length xs]"
proof (induction xs arbitrary: c acc)
  case Nil
  then show ?case by simp
next
  case (Cons x xs)
  have "map (\<lambda>d. c + (\<Sum>k\<le>d. (x # xs) ! k)) [0..<length (x # xs)] =
        (c + x) # map (\<lambda>d. c + x + (\<Sum>k\<le>d. xs ! k)) [0..<length xs]"
    by (simp add: upt_conv_Cons map_Suc_upt [symmetric] sum.atMost_Suc_shift add.assoc
        del: upt_Suc sum.atMost_Suc)
  then show ?case
    using Cons.IH [of "c + x" "acc @ [c + x]"] by simp
qed

lemma add_stock_days_length: "length (add_stock_days h D p a) = length a"
  by (simp add: add_stock_days_def fold_update_length)

lemma add_stock_days_nth:
  "d < length a \<Longrightarrow>
   add_stock_days h D p a ! d =
     a ! d + (if d < D \<and> d < length (abnormalReturns (h p)) then abnormalReturns (h p) ! d else 0)"
  unfolding add_stock_days_def
  by (simp add: fold_update_nth [where f = "\<lambda>day x. x + abnormalReturns (h p) ! day"])

lemma fold_add_stock_days_length: "length (fold (add_stock_days h D) ps a) = length a"
  by (induction ps arbitrary: a) (auto simp: add_stock_days_length)

lemma fold_add_stock_days_nth:
  "d < length a \<Longrightarrow> d < D \<Longrightarrow>
   fold (add_stock_days h D) ps a ! d =
     a ! d + (\<Sum>p\<leftarrow>ps. if d < length (abnormalReturns (h p)) then abnormalReturns (h p) ! d else 0)"
proof (induction ps arbitrary: a)
  case Nil
  then show ?case by simp
next
  case (Cons p ps)
  have "fold (add_stock_days h D) (p # ps) a ! d =
        fold (add_stock_days h D) ps (add_stock_days h D p a) ! d"
    by simp
  also have "\<dots> = add_stock_days h D p a ! d +
      (\<Sum>p\<leftarrow>ps. if d < length (abnormalReturns (h p)) then abnormalReturns (h p) ! d else 0)"
    using Cons.prems by (intro Cons.IH) (simp_all add: add_stock_days_length)
  finally show ?case
    using Cons.prems by (simp add: add_stock_days_nth)
qed

lemma resize_ok:
  "n \<le> max_size b \<Longrightarrow>
   resize b n x v = Inr (if n \<le> length v then take n v else v @ replicate (n - length v) x)"
  by (simp add: resize_def)

lemma resize_nth:
  "resize b n x v = Inr w \<Longrightarrow>
   length w = n \<and> (\<forall>d<n. w ! d = (if d < length v then v ! d else x))"
  by (auto simp: resize_def nth_append split: if_splits)

lemma calculateAAR_general:
  assumes ne: "stocks g \<noteq> []"
    and fit: "length (abnormalReturns (h (stocks g ! 0))) < 2 ^ 31"
  shows "calculateAAR h g =
    Inr (g\<lparr>aar := map (\<lambda>d. ((if d < length (aar g) then aar g ! d else 0) +
                (\<Sum>p\<leftarrow>stocks g. if d < length (abnormalReturns (h p))
                                 then abnormalReturns (h p) ! d else 0)) /
               real (length (stocks g)))
          [0..<length (abnormalReturns (h (stocks g ! 0)))]\<rparr>)"
proof -
  define N where "N = length (abnormalReturns (h (stocks g ! 0)))"
  have N: "size_t_of_int (int_of_size_t N) = N"
    using fit by (simp add: N_def size_t_of_int_of_size_t)
  have "N \<le> max_size 8"
    using fit by (simp add: N_def max_size_8)
  then obtain a0 where a0: "resize 8 N 0 (aar g) = Inr a0"
    by (simp add: resize_ok)
  from resize_nth [OF a0]
  have len0: "length a0 = N"
    and nth0: "\<And>d. d < N \<Longrightarrow> a0 ! d = (if d < length (aar g) then aar g ! d else 0)"
    by auto
  define a1 where "a1 = fold (add_stock_days h N) (stocks g) a0"
  define a2 where "a2 = fold (\<lambda>day a. a[day := a ! day / real (length (stocks g))]) [0..<N] a1"
  have len1: "length a1 = N"
    by (simp add: a1_def fold_add_stock_days_length len0)
  have len2: "length a2 = N"
    by (simp add: a2_def fold_update_length len1)
  have nth2: "a2 ! d = ((if d < length (aar g) then aar g ! d else 0) +
                (\<Sum>p\<leftarrow>stocks g. if d < length (abnormalReturns (h p))
                                 then abnormalReturns (h p) ! d else 0)) /
               real (length (stocks g))" if "d < N" for d
  proof -
    have "a2 ! d = a1 ! d / real (length (stocks g))"
      unfolding a2_def
      using that len1
      by (simp add: fold_update_nth [where f = "\<lambda>day x. x / real (length (stocks g))"])
    also have "a1 ! d = a0 ! d +
        (\<Sum>p\<leftarrow>stocks g. if d < length (abnormalReturns (h p))
                                 then abnormalReturns (h p) ! d else 0)"
      unfolding a1_def using that len0 by (simp add: fold_add_stock_days_nth)
    finally show ?thesis
      using that by (simp add: nth0)
  qed
  define F where "F = (\<lambda>d. ((if d < length (aar g) then aar g ! d else 0) +
                (\<Sum>p\<leftarrow>stocks g. if d < length (abnormalReturns (h p))
                                 then abnormalReturns (h p) ! d else 0)) /
               real (length (stocks g)))"
  have "a2 = map F [0..<N]"
  proof (rule nth_equalityI)
    show "length a2 = length (map F [0..<N])"
      by (simp add: len2)
  next
    fix i
    assume "i < length a2"
    then have i: "i < N" by (simp add: len2)
    then have "map F [0..<N] ! i = F i" by simp
    moreover have "a2 ! i = F i"
      using nth2 [OF i] by (simp add: F_def)
    ultimately show "a2 ! i = map F [0..<N] ! i" by simp
  qed
  moreover have "calculateAAR h g = Inr (g\<lparr>aar := a2\<rparr>)"
    using ne a0 by (simp add: calculateAAR_def Let_def N N_def [symmetric] a1_def a2_def)
  ultimately show ?thesis
    by (simp add: N_def F_def)
qed

subsection \<open>Abnormal returns\<close>

lemma abnormal_loop_length:
  "length (abnormal_loop i rets ms acc) = length acc + (min (length rets) (length ms) - i)"
proof (induction i rets ms acc rule: abnormal_loop.induct)
  case (1 i rets ms acc)
  show ?case
  proof (cases "i < length rets \<and> i < length ms")
    case True
    then show ?thesis
      using "1.IH" by (subst abnormal_loop.simps) auto
  next
    case False
    then show ?thesis
      by (subst abnormal_loop.simps) auto
  qed
qed

lemma abnormal_loop_nth:
  "k < length acc + (min (length rets) (length ms) - i) \<Longrightarrow>
   abnormal_loop i rets ms acc ! k =
     (if k < length acc then acc ! k
      else rets ! (i + (k - length acc)) - ms ! (i + (k - length acc)))"
proof (induction i rets ms acc rule: abnormal_loop.induct)
  case (1 i rets ms acc)
  show ?case
  proof (cases "i < length rets \<and> i < length ms")
    case True
    have "abnormal_loop i rets ms acc ! k =
          abnormal_loop (Suc i) rets ms (acc @ [rets ! i - ms ! i]) ! k"
      using True by (subst abnormal_loop.simps) simp
    also have "\<dots> =
       (if k < Suc (length acc) then (acc @ [rets ! i - ms ! i]) ! k
        else rets ! (Suc i + (k - Suc (length acc))) - ms ! (Suc i + (k - Suc (length acc))))"
      using "1.IH" [OF True] "1.prems" True by auto
    also have "\<dots> =
       (if k < length acc then acc ! k
        else rets ! (i + (k - length acc)) - ms ! (i + (k - length acc)))"
    proof (cases "k < length acc")
      case True
      then show ?thesis by (simp add: nth_append)
    next
      case False
      show ?thesis
      proof (cases "k = length acc")
        case True
        then show ?thesis by simp
      next
        case neq: False
        with False have "Suc (length acc) \<le> k" by simp
        then have "Suc i + (k - Suc (length acc)) = i + (k - length acc)" by simp
        with False neq show ?thesis by simp
      qed
    qed
    finally show ?thesis .
  next
    case False
    then have "abnormal_loop i rets ms acc = acc"
      by (subst abnormal_loop.simps) auto
    moreover from False "1.prems" have "k < length acc" by auto
    ultimately show ?thesis by simp
  qed
qed

text \<open>
  C5. For all return sequences of the company and of the market, of any lengths (0
  included), \<^verbatim>\<open>calculateAbnormalReturns\<close> stores a sequence whose length is the minimum of
  the two lengths and whose element \<open>i\<close> is \<open>returns[i] - marketReturns[i]\<close>; the method
  is total, so a length mismatch is no error, and it changes no other field of the stock.
\<close>

theorem calculateAbnormalReturns_truncation:
  "length (abnormalReturns (calculateAbnormalReturns marketReturns s)) =
     min (length (returns s)) (length marketReturns) \<and>
   (\<forall>i. i < min (length (returns s)) (length marketReturns) \<longrightarrow>
      abnormalReturns (calculateAbnormalReturns marketReturns s) ! i =
        returns s ! i - marketReturns ! i) \<and>
   returns (calculateAbnormalReturns marketReturns s) = returns s"
  by (simp add: calculateAbnormalReturns_def abnormal_loop_length abnormal_loop_nth)

theorem calculateAbnormalReturns_truncation_witness:
  "abnormalReturns (calculateAbnormalReturns [1 / 100, 2 / 100, 7]
      ((new_Stock ''A'' 2 (22 / 10) ''2024-01-01'')\<lparr>returns := [2 / 100, 0]\<rparr>)) ! 1 =
     - (2 / 100) \<and>
   length (abnormalReturns (calculateAbnormalReturns [1 / 100, 2 / 100, 7]
      ((new_Stock ''A'' 2 (22 / 10) ''2024-01-01'')\<lparr>returns := [2 / 100, 0]\<rparr>))) = 2 \<and>
   length (abnormalReturns (calculateAbnormalReturns []
      ((new_Stock ''A'' 2 (22 / 10) ''2024-01-01'')\<lparr>returns := [2 / 100, 0]\<rparr>))) = 0"
  using calculateAbnormalReturns_truncation
    [of "[1 / 100, 2 / 100, 7]"
        "(new_Stock ''A'' 2 (22 / 10) ''2024-01-01'')\<lparr>returns := [2 / 100, 0]\<rparr>"]
    calculateAbnormalReturns_truncation
    [of "[]" "(new_Stock ''A'' 2 (22 / 10) ''2024-01-01'')\<lparr>returns := [2 / 100, 0]\<rparr>"]
  by (simp add: new_Stock_def)

subsection \<open>Classification\<close>

text \<open>
  C9. The label is \<^verbatim>\<open>Beat\<close> exactly when the surprise percentage
  \<open>(actualEPS - epsEstimate) / |epsEstimate| * 100\<close> exceeds 5, \<^verbatim>\<open>Miss\<close> exactly when it
  is below -5, and \<^verbatim>\<open>Meet\<close> otherwise; with an estimate of 0 the surprise is 0 and the
  label is \<^verbatim>\<open>Meet\<close>. Both methods are total functions of the two EPS fields.
\<close>

theorem getGroup_classifier:
  "(epsEstimate s \<noteq> 0 \<longrightarrow>
      getSurprisePercentage s = (actualEPS s - epsEstimate s) / \<bar>epsEstimate s\<bar> * 100) \<and>
   (epsEstimate s = 0 \<longrightarrow> getSurprisePercentage s = 0 \<and> getGroup s = ''Meet'') \<and>
   (getGroup s = ''Beat'' \<longleftrightarrow> getSurprisePercentage s > 5) \<and>
   (getGroup s = ''Miss'' \<longleftrightarrow> getSurprisePercentage s < - 5) \<and>
   (getGroup s = ''Meet'' \<longleftrightarrow> - 5 \<le> getSurprisePercentage s \<and> getSurprisePercentage s \<le> 5) \<and>
   getGroup (new_Stock n e a d) = getGroup (new_Stock n' e a d')"
  by (simp add: getGroup_def getSurprisePercentage_def new_Stock_def Let_def)

theorem getGroup_classifier_witness:
  "getGroup (new_Stock ''A'' 2 (22 / 10) ''d'') = ''Beat'' \<and>
   getSurprisePercentage (new_Stock ''A'' 2 (22 / 10) ''d'') = 10 \<and>
   getGroup (new_Stock ''B'' 2 (18 / 10) ''d'') = ''Miss'' \<and>
   getSurprisePercentage (new_Stock ''B'' 2 (18 / 10) ''d'') = - 10 \<and>
   getGroup (new_Stock ''C'' 2 (205 / 100) ''d'') = ''Meet'' \<and>
   getSurprisePercentage (new_Stock ''C'' 2 (205 / 100) ''d'') = 25 / 10 \<and>
   getGroup (new_Stock ''D'' 0 7 ''d'') = ''Meet'' \<and>
   getSurprisePercentage (new_Stock ''D'' 0 7 ''d'') = 0"
  using getGroup_classifier [of "new_Stock ''A'' 2 (22 / 10) ''d''"]
    getGroup_classifier [of "new_Stock ''B'' 2 (18 / 10) ''d''"]
    getGroup_classifier [of "new_Stock ''C'' 2 (205 / 100) ''d''"]
    getGroup_classifier [of "new_Stock ''D'' 0 7 ''d''"]
  by (simp add: new_Stock_def)











subsection \<open>Group aggregation\<close>

lemma fold_addStock:
  "fold addStock ps g = g\<lparr>stocks := stocks g @ ps\<rparr>"
  by (induction ps arbitrary: g) (simp_all add: addStock_def)

lemma group_of_simps:
  "stocks (group_of ps) = ps" "aar (group_of ps) = []" "caar (group_of ps) = []"
  by (simp_all add: group_of_def fold_addStock new_Group_def)

text \<open>
  C6. After \<^verbatim>\<open>calculateCAAR\<close> the stored \<^verbatim>\<open>caar\<close> is as long as \<^verbatim>\<open>aar\<close>, which the
  method leaves as it was, and its element \<open>d\<close> is the sum of \<open>aar[0]\<close>, ..., \<open>aar[d]\<close>;
  on an empty \<^verbatim>\<open>aar\<close> it is empty.
\<close>

theorem calculateCAAR_prefix_sums:
  "length (caar (calculateCAAR g)) = length (aar (calculateCAAR g)) \<and>
   aar (calculateCAAR g) = aar g \<and>
   (\<forall>d. d < length (aar g) \<longrightarrow> caar (calculateCAAR g) ! d = (\<Sum>k\<le>d. aar g ! k)) \<and>
   (aar g = [] \<longrightarrow> caar (calculateCAAR g) = [])"
  by (simp add: calculateCAAR_def caar_loop_eq)

theorem calculateCAAR_prefix_sums_witness:
  "caar (calculateCAAR ((group_of [0, 1])\<lparr>aar := [2 / 100, 2 / 100]\<rparr>)) ! 0 = 2 / 100 \<and>
   caar (calculateCAAR ((group_of [0, 1])\<lparr>aar := [2 / 100, 2 / 100]\<rparr>)) ! 1 = 4 / 100 \<and>
   length (caar (calculateCAAR ((group_of [0, 1])\<lparr>aar := [2 / 100, 2 / 100]\<rparr>))) = 2 \<and>
   caar (calculateCAAR (group_of [])) = []"
  using calculateCAAR_prefix_sums [of "(group_of [0, 1])\<lparr>aar := [2 / 100, 2 / 100]\<rparr>"]
    calculateCAAR_prefix_sums [of "group_of []"]
  by (simp add: group_of_simps)

text \<open>
  Calling \<^verbatim>\<open>calculateCAAR\<close> again changes nothing: the method clears \<^verbatim>\<open>caar\<close> first.
\<close>

lemma calculateCAAR_idempotent: "calculateCAAR (calculateCAAR g) = calculateCAAR g"
  by (simp add: calculateCAAR_def)

text \<open>
  C1. \<^verbatim>\<open>calculateAAR\<close> resizes \<^verbatim>\<open>aar\<close> without clearing it, so the second of two calls on
  an unchanged group adds the members' returns to the averages the first call stored.
  Here the group has the single member at address 0, whose abnormal returns are the
  sequence \<open>[1]\<close>: the first call stores \<open>[1]\<close>, the second \<open>[2]\<close>.
\<close>

theorem calculateAAR_twice_accumulates:
  "calculateAAR unit_heap (group_of [0]) = Inr ((group_of [0])\<lparr>aar := [1]\<rparr>) \<and>
   calculateAAR unit_heap ((group_of [0])\<lparr>aar := [1]\<rparr>) = Inr ((group_of [0])\<lparr>aar := [2]\<rparr>) \<and>
   stocks ((group_of [0])\<lparr>aar := [1]\<rparr>) = stocks (group_of [0])"
  using calculateAAR_general [of "group_of [0]" unit_heap]
    calculateAAR_general [of "(group_of [0])\<lparr>aar := [1]\<rparr>" unit_heap]
  by (simp add: group_of_simps unit_heap_def new_Stock_def)

lemma calculateAAR_long: "calculateAAR long_heap (group_of [0]) = Inl LengthError"
  by (simp add: calculateAAR_def group_of_simps long_heap_def new_Stock_def
      size_t_of_int_of_size_t_big resize_def max_size_8 Let_def)

text \<open>
  The formula of C2 fails on a non-empty group that already holds averages: with the
  member above and the stored \<^verbatim>\<open>aar\<close> \<open>[1]\<close>, the call stores 2 for day 0, where the
  formula gives 1. It also fails when the first member has \<open>2^31\<close> abnormal returns:
  \<^verbatim>\<open>daysCount\<close> is then negative and the resize throws.
\<close>

theorem calculateAAR_stale_counterexample:
  "stocks ((group_of [0])\<lparr>aar := [1]\<rparr>) \<noteq> [] \<and>
   calculateAAR unit_heap ((group_of [0])\<lparr>aar := [1]\<rparr>) = Inr ((group_of [0])\<lparr>aar := [2]\<rparr>) \<and>
   aar ((group_of [0])\<lparr>aar := [2]\<rparr>) ! 0 \<noteq>
     aar_formula unit_heap (stocks ((group_of [0])\<lparr>aar := [1]\<rparr>)) 0 \<and>
   stocks (group_of [0]) \<noteq> [] \<and>
   length (abnormalReturns (long_heap (stocks (group_of [0]) ! 0))) = 2 ^ 31 \<and>
   calculateAAR long_heap (group_of [0]) = Inl LengthError"
  using calculateAAR_general [of "(group_of [0])\<lparr>aar := [1]\<rparr>" unit_heap] calculateAAR_long
  by (simp add: group_of_simps unit_heap_def new_Stock_def aar_formula_def long_heap_def)

text \<open>
  C2, amended. For every non-empty group whose \<^verbatim>\<open>aar\<close> is still empty, as the
  constructor leaves it, and whose first member has fewer than \<open>2^31\<close> abnormal returns
  (so that \<^verbatim>\<open>int daysCount\<close> holds their number), \<^verbatim>\<open>calculateAAR\<close> changes \<^verbatim>\<open>aar\<close> only
  and stores a sequence as long as the first member's abnormal returns, whose element
  \<open>d\<close> is the sum over all members of the member's abnormal return of day \<open>d\<close>, or of 0
  for a member with no such day, divided by the number of all members. The witness is
  the scenario of two members with abnormal returns 0.01, 0.02 and 0.03, 0.02, which
  yields 0.02, 0.02.
\<close>

theorem calculateAAR_formula:
  assumes "stocks g \<noteq> []"
    and "aar g = []"
    and "length (abnormalReturns (h (stocks g ! 0))) < 2 ^ 31"
  shows "\<exists>g'. calculateAAR h g = Inr g' \<and> g' = g\<lparr>aar := aar g'\<rparr> \<and>
     length (aar g') = length (abnormalReturns (h (stocks g ! 0))) \<and>
     (\<forall>d. d < length (abnormalReturns (h (stocks g ! 0))) \<longrightarrow>
        aar g' ! d = aar_formula h (stocks g) d)"
  using calculateAAR_general [of g h, OF assms(1) assms(3)] assms(2)
  by (simp add: aar_formula_def cong: if_cong)

theorem calculateAAR_formula_witness:
  "stocks (group_of [0, 1]) \<noteq> [] \<and> aar (group_of [0, 1]) = [] \<and>
   calculateAAR pair_heap (group_of [0, 1]) =
     Inr ((group_of [0, 1])\<lparr>aar := [2 / 100, 2 / 100]\<rparr>)"
proof -
  let ?g = "group_of [0, 1]"
  have ne: "stocks ?g \<noteq> []" and fresh: "aar ?g = []"
    and fit: "length (abnormalReturns (pair_heap (stocks ?g ! 0))) < 2 ^ 31"
    by (simp_all add: group_of_simps pair_heap_def new_Stock_def)
  from calculateAAR_formula [of ?g pair_heap, OF ne fresh fit]
  obtain g' where run: "calculateAAR pair_heap ?g = Inr g'"
    and frame: "g' = ?g\<lparr>aar := aar g'\<rparr>"
    and len: "length (aar g') = 2"
    and nth: "\<And>d. d < 2 \<Longrightarrow> aar g' ! d = aar_formula pair_heap [0, 1] d"
    by (auto simp: group_of_simps pair_heap_def new_Stock_def)
  have "aar g' ! 0 = 2 / 100" and "aar g' ! 1 = 2 / 100"
    using nth [of 0] nth [of 1]
    by (simp_all add: aar_formula_def pair_heap_def new_Stock_def)
  with len have "aar g' = [2 / 100, 2 / 100]"
    by (cases "aar g'"; cases "tl (aar g')") auto
  with run frame ne fresh show ?thesis
    by simp
qed

subsection \<open>Sampling\<close>

text \<open>
  C7. For every group and every \<^verbatim>\<open>sampleSize\<close> that is at least the number of members,
  \<^verbatim>\<open>sampleStocks\<close> returns the members themselves, in their order, whatever the shuffle
  and the random device are, and it leaves the random device as it was: no seed is read.
\<close>

theorem sampleStocks_returns_all:
  assumes "int (length (stocks g)) \<le> sint sampleSize"
  shows "sampleStocks shuffle g sampleSize rd = (stocks g, rd)"
proof -
  from assms have "0 \<le> sint sampleSize" by linarith
  then have "size_t_of_int sampleSize = nat (sint sampleSize)"
    by (rule size_t_of_int_nonneg)
  with assms have "length (stocks g) \<le> size_t_of_int sampleSize" by linarith
  then show ?thesis
    by (simp add: sampleStocks_def)
qed

theorem sampleStocks_returns_all_witness:
  "int (length (stocks (group_of [0, 1, 2]))) \<le> sint (3 :: 32 word) \<and>
   sampleStocks rev_shuffle (group_of [0, 1, 2]) 3 zero_device = ([0, 1, 2], zero_device)"
  using sampleStocks_returns_all [of "group_of [0, 1, 2]" 3 rev_shuffle zero_device]
  by (simp add: group_of_simps)

text \<open>
  C4. For every group with at least one member (and no more than a vector can hold), a
  negative \<^verbatim>\<open>sampleSize\<close> converts to a \<^verbatim>\<open>size_t\<close> above the group's size, so
  \<^verbatim>\<open>sampleStocks\<close> returns all members and reads no seed; with \<^verbatim>\<open>sampleSize\<close> 0 the
  members are shuffled and the sample is empty.
\<close>

theorem sampleStocks_nonpositive:
  assumes "stocks g \<noteq> []" and "length (stocks g) \<le> max_size 8"
  shows "(sint sampleSize < 0 \<longrightarrow> sampleStocks shuffle g sampleSize rd = (stocks g, rd)) \<and>
         (sampleSize = 0 \<longrightarrow> sampleStocks shuffle g sampleSize rd = ([], stl rd))"
proof (intro conjI impI)
  assume "sint sampleSize < 0"
  then have "2 ^ 64 - 2 ^ 31 \<le> size_t_of_int sampleSize"
    by (rule size_t_of_int_neg_large)
  moreover have "length (stocks g) \<le> 2 ^ 60 - 1"
    using assms(2) by (simp add: max_size_8)
  ultimately have "length (stocks g) \<le> size_t_of_int sampleSize"
    by simp
  then show "sampleStocks shuffle g sampleSize rd = (stocks g, rd)"
    by (simp add: sampleStocks_def)
next
  assume "sampleSize = 0"
  with assms(1) show "sampleStocks shuffle g sampleSize rd = ([], stl rd)"
    by (simp add: sampleStocks_def size_t_of_int_0)
qed

theorem sampleStocks_nonpositive_witness:
  "stocks (group_of [0, 1]) \<noteq> [] \<and> length (stocks (group_of [0, 1])) \<le> max_size 8 \<and>
   sint (- 1 :: 32 word) < 0 \<and>
   sampleStocks rev_shuffle (group_of [0, 1]) (- 1) zero_device = ([0, 1], zero_device) \<and>
   sampleStocks rev_shuffle (group_of [0, 1]) 0 zero_device = ([], stl zero_device)"
  using sampleStocks_nonpositive [of "group_of [0, 1]" "- 1" rev_shuffle zero_device]
    sampleStocks_nonpositive [of "group_of [0, 1]" 0 rev_shuffle zero_device]
  by (simp add: group_of_simps max_size_8)

subsection \<open>Bootstrapping with a single iteration\<close>

lemma calculateCAAR_length: "length (caar (calculateCAAR g)) = length (aar g)"
  by (simp add: calculateCAAR_def caar_loop_eq)

lemma calculateAAR_fresh_length:
  assumes "aar g = []" and "calculateAAR h g = Inr g'"
  shows "length (aar g') \<le> max_size 8"
proof (cases "stocks g = []")
  case True
  with assms show ?thesis by (simp add: calculateAAR_def)
next
  case False
  define n where "n = size_t_of_int (int_of_size_t (length (abnormalReturns (h (stocks g ! 0)))))"
  from assms(2) False obtain a0 where a0: "resize 8 n 0 (aar g) = Inr a0"
    and g': "g' = g\<lparr>aar := fold (\<lambda>day a. a[day := a ! day / real (length (stocks g))]) [0..<n]
                (fold (add_stock_days h n) (stocks g) a0)\<rparr>"
    by (auto simp: calculateAAR_def Let_def n_def split: sum.splits)
  from a0 have "n \<le> max_size 8"
    by (auto simp: resize_def split: if_splits)
  moreover from resize_nth [OF a0] have "length a0 = n" by simp
  ultimately show ?thesis
    by (simp add: g' fold_update_length fold_add_stock_days_length)
qed

lemma temp_group_fresh: "aar (fold addStock ps (new_Group nm)) = []"
  by (simp add: fold_addStock new_Group_def)

lemma bootstrap_iteration_lengths:
  assumes "bootstrap_iteration shuffle h an sampleSize rd = Inr ((b, m, s), rd')"
  shows "length b \<le> max_size 8 \<and> length m \<le> max_size 8 \<and> length s \<le> max_size 8"
  using assms
  by (auto simp: bootstrap_iteration_def Let_def calculateCAAR_length
      split: prod.splits sum.splits
      intro: calculateAAR_fresh_length [OF temp_group_fresh])

lemma min_caar_size_single: "length b \<le> max_size 8 \<Longrightarrow> min_caar_size [b] = length b"
  by (simp add: min_caar_size_def SIZE_MAX_def max_size_8)

lemma sum_caars_single:
  "sum_caars [b] 1 (length b) (replicate (length b) 0) = b"
proof (rule nth_equalityI)
  show "length (sum_caars [b] 1 (length b) (replicate (length b) 0)) = length b"
    by (simp add: sum_caars_def fold_update_length)
next
  fix d
  assume "d < length (sum_caars [b] 1 (length b) (replicate (length b) 0))"
  then have d: "d < length b"
    by (simp add: sum_caars_def fold_update_length)
  then show "sum_caars [b] 1 (length b) (replicate (length b) 0) ! d = b ! d"
    by (simp add: sum_caars_def fold_update_nth [where f = "\<lambda>day x. x + b ! day"])
qed

lemma fold_skip: "fold (\<lambda>x a. a) xs a = a"
  by (induction xs) simp_all

lemma divide_caar_single: "divide_caar 1 n b = b"
  by (simp add: divide_caar_def fold_skip)

lemma average_single:
  assumes "length b \<le> max_size 8"
  shows "resize 8 (min_caar_size [b]) 0 [] = Inr (replicate (length b) 0)"
    and "divide_caar 1 (min_caar_size [b])
           (sum_caars [b] 1 (min_caar_size [b]) (replicate (length b) 0)) = b"
  using assms
  by (simp_all add: min_caar_size_single resize_def sum_caars_single divide_caar_single)

lemma performBootstrapping_one:
  "performBootstrapping shuffle h an sampleSize 1 rd =
   bootstrap_iteration shuffle h an sampleSize rd"
proof (cases "bootstrap_iteration shuffle h an sampleSize rd")
  case (Inl e)
  then show ?thesis
    by (simp add: performBootstrapping_def size_t_of_int_1 max_size_24)
next
  case (Inr r)
  obtain b m s rd' where r: "r = ((b, m, s), rd')"
    by (cases r) auto
  from bootstrap_iteration_lengths [OF Inr [unfolded r]]
  have "length b \<le> max_size 8" "length m \<le> max_size 8" "length s \<le> max_size 8"
    by simp_all
  then show ?thesis
    using Inr r
    by (simp add: performBootstrapping_def size_t_of_int_1 max_size_24 average_single)
qed

lemma bootstrap_iteration_run:
  assumes "sampleStocks shuffle (beatGroup an) sampleSize rd = (beatSample, rd1)"
    and "sampleStocks shuffle (meetGroup an) sampleSize rd1 = (meetSample, rd2)"
    and "sampleStocks shuffle (missGroup an) sampleSize rd2 = (missSample, rd3)"
    and "calculateAAR h (fold addStock beatSample (new_Group ''TempBeat'')) = Inr gb"
    and "calculateAAR h (fold addStock meetSample (new_Group ''TempMeet'')) = Inr gm"
    and "calculateAAR h (fold addStock missSample (new_Group ''TempMiss'')) = Inr gs"
  shows "bootstrap_iteration shuffle h an sampleSize rd =
           Inr ((caar (calculateCAAR gb), caar (calculateCAAR gm), caar (calculateCAAR gs)), rd3)"
  using assms by (simp add: bootstrap_iteration_def)

lemma analyzer_of_simps:
  "beatGroup (analyzer_of bs ms ss) = (new_Group ''Beat'')\<lparr>stocks := bs\<rparr>"
  "meetGroup (analyzer_of bs ms ss) = (new_Group ''Meet'')\<lparr>stocks := ms\<rparr>"
  "missGroup (analyzer_of bs ms ss) = (new_Group ''Miss'')\<lparr>stocks := ss\<rparr>"
  by (simp_all add: analyzer_of_def fold_addStock new_Group_def)

text \<open>
  C8. With \<^verbatim>\<open>iterations\<close> 1, for every analyzer and every \<^verbatim>\<open>sampleSize\<close> (positive or
  not): if the three samples of the single iteration are \<open>beatSample\<close>, \<open>meetSample\<close> and
  \<open>missSample\<close>, and \<^verbatim>\<open>calculateAAR\<close> returns on the temporary groups built from them,
  then the averaged sequence of each group is the \<^verbatim>\<open>caar\<close> that \<^verbatim>\<open>calculateCAAR\<close> stores
  for that temporary group: the minimum over one length and the division by 1 change
  nothing.
\<close>

theorem performBootstrapping_single_iteration:
  assumes "sampleStocks shuffle (beatGroup an) sampleSize rd = (beatSample, rd1)"
    and "sampleStocks shuffle (meetGroup an) sampleSize rd1 = (meetSample, rd2)"
    and "sampleStocks shuffle (missGroup an) sampleSize rd2 = (missSample, rd3)"
    and "calculateAAR h (fold addStock beatSample (new_Group ''TempBeat'')) = Inr gb"
    and "calculateAAR h (fold addStock meetSample (new_Group ''TempMeet'')) = Inr gm"
    and "calculateAAR h (fold addStock missSample (new_Group ''TempMiss'')) = Inr gs"
  shows "performBootstrapping shuffle h an sampleSize 1 rd =
           Inr ((caar (calculateCAAR gb), caar (calculateCAAR gm), caar (calculateCAAR gs)), rd3)"
proof -
  have "performBootstrapping shuffle h an sampleSize 1 rd =
        bootstrap_iteration shuffle h an sampleSize rd"
    by (rule performBootstrapping_one)
  also have "\<dots> =
        Inr ((caar (calculateCAAR gb), caar (calculateCAAR gm), caar (calculateCAAR gs)), rd3)"
    using assms by (rule bootstrap_iteration_run)
  finally show ?thesis .
qed

theorem performBootstrapping_single_iteration_witness:
  "0 < sint (1 :: 32 word) \<and>
   performBootstrapping rev_shuffle pair_heap (analyzer_of [0, 1] [1] []) 1 1 zero_device =
     Inr (([3 / 100, 5 / 100], [3 / 100, 5 / 100], []), stl zero_device)"
proof -
  let ?an = "analyzer_of [0, 1] [1] []"
  let ?t = "\<lambda>nm. (new_Group nm)\<lparr>stocks := [1]\<rparr>"
  have s1: "sampleStocks rev_shuffle (beatGroup ?an) 1 zero_device = ([1], stl zero_device)"
    by (simp add: sampleStocks_def analyzer_of_simps new_Group_def size_t_of_int_1 rev_shuffle_def)
  have s2: "sampleStocks rev_shuffle (meetGroup ?an) 1 (stl zero_device) = ([1], stl zero_device)"
    by (simp add: sampleStocks_def analyzer_of_simps new_Group_def size_t_of_int_1)
  have s3: "sampleStocks rev_shuffle (missGroup ?an) 1 (stl zero_device) = ([], stl zero_device)"
    by (simp add: sampleStocks_def analyzer_of_simps new_Group_def size_t_of_int_1)
  have a: "calculateAAR pair_heap (fold addStock [1] (new_Group nm)) =
           Inr ((?t nm)\<lparr>aar := [3 / 100, 2 / 100]\<rparr>)" for nm
    using calculateAAR_general [of "?t nm" pair_heap]
    by (simp add: addStock_def new_Group_def pair_heap_def new_Stock_def upt_rec)
  have e: "calculateAAR pair_heap (fold addStock [] (new_Group ''TempMiss'')) =
           Inr (new_Group ''TempMiss'')"
    by (simp add: calculateAAR_def new_Group_def)
  show ?thesis
    using performBootstrapping_single_iteration [OF s1 s2 s3 a a e]
    by (simp add: calculateCAAR_def new_Group_def)
qed

subsection \<open>Bootstrapping with non-positive arguments\<close>

lemma performBootstrapping_iterations_nonpositive:
  assumes "sint iterations \<le> 0"
  shows "performBootstrapping shuffle h an sampleSize iterations rd = Inl LengthError"
proof (cases "sint iterations < 0")
  case True
  then have "2 ^ 64 - 2 ^ 31 \<le> size_t_of_int iterations"
    by (rule size_t_of_int_neg_large)
  then have "max_size 24 < size_t_of_int iterations"
    by (simp add: max_size_24)
  then show ?thesis
    by (simp add: performBootstrapping_def)
next
  case False
  with assms have "sint iterations = 0" by simp
  then have "iterations = 0" by (simp add: signed_eq_0_iff)
  then show ?thesis
    by (simp add: performBootstrapping_def size_t_of_int_0 min_caar_size_def resize_def
        SIZE_MAX_def max_size_8)
qed

lemma sampleStocks_zero: "fst (sampleStocks shuffle g 0 rd) = []"
  by (simp add: sampleStocks_def size_t_of_int_0)

lemma bootstrap_iteration_zero:
  "\<exists>rd'. bootstrap_iteration shuffle h an 0 rd = Inr (([], [], []), rd')"
proof -
  obtain rd1 where s1: "sampleStocks shuffle (beatGroup an) 0 rd = ([], rd1)"
    using sampleStocks_zero [of shuffle "beatGroup an" rd]
    by (cases "sampleStocks shuffle (beatGroup an) 0 rd") simp
  obtain rd2 where s2: "sampleStocks shuffle (meetGroup an) 0 rd1 = ([], rd2)"
    using sampleStocks_zero [of shuffle "meetGroup an" rd1]
    by (cases "sampleStocks shuffle (meetGroup an) 0 rd1") simp
  obtain rd3 where s3: "sampleStocks shuffle (missGroup an) 0 rd2 = ([], rd3)"
    using sampleStocks_zero [of shuffle "missGroup an" rd2]
    by (cases "sampleStocks shuffle (missGroup an) 0 rd2") simp
  show ?thesis
    by (simp add: bootstrap_iteration_def s1 s2 s3 calculateAAR_def new_Group_def calculateCAAR_def)
qed

lemma replicate_update_same: "(replicate n x)[i := x] = replicate n x"
  by (cases "i < n") (simp_all add: list_update_same_conv list_update_beyond)

lemma bootstrap_loop_zero:
  "\<exists>rd'. bootstrap_loop shuffle h an 0 js (replicate n [], replicate n [], replicate n []) rd =
      Inr ((replicate n [], replicate n [], replicate n []), rd')"
proof (induction js arbitrary: rd)
  case Nil
  show ?case by simp
next
  case (Cons j js)
  obtain rd1 where "bootstrap_iteration shuffle h an 0 rd = Inr (([], [], []), rd1)"
    using bootstrap_iteration_zero by blast
  then show ?case
    using Cons.IH [of rd1] by (simp add: replicate_update_same)
qed

lemma fold_min_replicate:
  "fold (\<lambda>caar m. min m (length caar)) (replicate n ([] :: real list)) m = (if n = 0 then m else 0)"
  by (induction n arbitrary: m) simp_all

lemma performBootstrapping_zero_sample:
  assumes "0 < sint iterations"
  shows "\<exists>rd'. performBootstrapping shuffle h an 0 iterations rd = Inr (([], [], []), rd')"
proof -
  define n where "n = size_t_of_int iterations"
  have n: "n = nat (sint iterations)"
    using assms by (simp add: n_def size_t_of_int_nonneg)
  have "n < 2 ^ 31"
    using sint_32_range [of iterations] assms by (simp add: n)
  then have small: "\<not> max_size 24 < n"
    by (simp add: max_size_24)
  have pos: "n \<noteq> 0"
    using assms by (simp add: n)
  obtain rd' where loop:
    "bootstrap_loop shuffle h an 0 [0..<nat (sint iterations)]
       (replicate n [], replicate n [], replicate n []) rd =
     Inr ((replicate n [], replicate n [], replicate n []), rd')"
    using bootstrap_loop_zero by blast
  have "performBootstrapping shuffle h an 0 iterations rd = Inr (([], [], []), rd')"
    using small pos loop
    by (simp add: performBootstrapping_def n_def [symmetric] min_caar_size_def
        fold_min_replicate resize_def sum_caars_def divide_caar_def fold_skip
        del: fold_replicate)
  then show ?thesis ..
qed

lemma calculateAAR_ok:
  assumes "\<forall>p. length (abnormalReturns (h p)) < 2 ^ 31"
  shows "\<exists>g'. calculateAAR h g = Inr g'"
proof (cases "stocks g = []")
  case True
  then show ?thesis by (simp add: calculateAAR_def)
next
  case False
  from assms have "length (abnormalReturns (h (stocks g ! 0))) < 2 ^ 31" ..
  from calculateAAR_general [of g h, OF False this] show ?thesis by simp
qed

lemma bootstrap_iteration_ok:
  assumes "\<forall>p. length (abnormalReturns (h p)) < 2 ^ 31"
  shows "\<exists>b m s rd'. bootstrap_iteration shuffle h an sampleSize rd = Inr ((b, m, s), rd')"
proof -
  obtain bs rd1 where s1: "sampleStocks shuffle (beatGroup an) sampleSize rd = (bs, rd1)"
    by (cases "sampleStocks shuffle (beatGroup an) sampleSize rd")
  obtain ms rd2 where s2: "sampleStocks shuffle (meetGroup an) sampleSize rd1 = (ms, rd2)"
    by (cases "sampleStocks shuffle (meetGroup an) sampleSize rd1")
  obtain ss rd3 where s3: "sampleStocks shuffle (missGroup an) sampleSize rd2 = (ss, rd3)"
    by (cases "sampleStocks shuffle (missGroup an) sampleSize rd2")
  obtain gb where gb: "calculateAAR h (fold addStock bs (new_Group ''TempBeat'')) = Inr gb"
    using calculateAAR_ok [OF assms] by blast
  obtain gm where gm: "calculateAAR h (fold addStock ms (new_Group ''TempMeet'')) = Inr gm"
    using calculateAAR_ok [OF assms] by blast
  obtain gs where gs: "calculateAAR h (fold addStock ss (new_Group ''TempMiss'')) = Inr gs"
    using calculateAAR_ok [OF assms] by blast
  show ?thesis
    by (simp add: bootstrap_iteration_def s1 s2 s3 gb gm gs)
qed

lemma caars_ok_update:
  "caars_ok n cs \<Longrightarrow> length c \<le> max_size 8 \<Longrightarrow> caars_ok n (cs[i := c])"
  unfolding caars_ok_def
  by (auto dest: set_update_subset_insert [THEN subsetD])

lemma bootstrap_loop_ok:
  assumes "\<forall>p. length (abnormalReturns (h p)) < 2 ^ 31"
    and "caars_ok n bs" and "caars_ok n ms" and "caars_ok n ss"
  shows "\<exists>bs' ms' ss' rd'.
           bootstrap_loop shuffle h an sampleSize js (bs, ms, ss) rd = Inr ((bs', ms', ss'), rd') \<and>
           caars_ok n bs' \<and> caars_ok n ms' \<and> caars_ok n ss'"
  using assms(2-4)
proof (induction js arbitrary: bs ms ss rd)
  case Nil
  then show ?case by simp
next
  case (Cons j js)
  obtain b m s rd1 where it: "bootstrap_iteration shuffle h an sampleSize rd = Inr ((b, m, s), rd1)"
    using bootstrap_iteration_ok [OF assms(1)] by blast
  from bootstrap_iteration_lengths [OF it]
  have "caars_ok n (bs[j := b])" "caars_ok n (ms[j := m])" "caars_ok n (ss[j := s])"
    using Cons.prems by (simp_all add: caars_ok_update)
  from Cons.IH [OF this, of rd1] show ?case
    using it by simp
qed

lemma min_caar_size_le:
  "fold (\<lambda>caar m. min m (length caar)) cs m0 \<le> m0"
proof (induction cs arbitrary: m0)
  case Nil
  show ?case by simp
next
  case (Cons c cs)
  from Cons.IH [of "min m0 (length c)"] show ?case by simp
qed

lemma min_caar_size_ok:
  assumes "caars_ok n cs" and "n \<noteq> 0"
  shows "min_caar_size cs \<le> max_size 8"
proof -
  from assms obtain c cs' where cs: "cs = c # cs'"
    by (cases cs) (auto simp: caars_ok_def)
  with assms(1) have "length c \<le> max_size 8"
    by (simp add: caars_ok_def)
  moreover have "min_caar_size cs \<le> length c"
    using min_caar_size_le [of cs' "min SIZE_MAX (length c)"]
    by (simp add: min_caar_size_def cs)
  ultimately show ?thesis by simp
qed

lemma caars_ok_replicate: "caars_ok n (replicate n [])"
  by (simp add: caars_ok_def)

lemma performBootstrapping_ok:
  assumes "0 < sint iterations"
    and "\<forall>p. length (abnormalReturns (h p)) < 2 ^ 31"
  shows "\<exists>r. performBootstrapping shuffle h an sampleSize iterations rd = Inr r"
proof -
  define n where "n = size_t_of_int iterations"
  have n: "n = nat (sint iterations)"
    using assms(1) by (simp add: n_def size_t_of_int_nonneg)
  have "n < 2 ^ 31"
    using sint_32_range [of iterations] assms(1) by (simp add: n)
  then have small: "\<not> max_size 24 < n"
    by (simp add: max_size_24)
  have pos: "n \<noteq> 0"
    using assms(1) by (simp add: n)
  obtain bs ms ss rd' where loop:
    "bootstrap_loop shuffle h an sampleSize [0..<nat (sint iterations)]
       (replicate n [], replicate n [], replicate n []) rd = Inr ((bs, ms, ss), rd')"
    and ok: "caars_ok n bs" "caars_ok n ms" "caars_ok n ss"
    using bootstrap_loop_ok [OF assms(2) caars_ok_replicate caars_ok_replicate caars_ok_replicate,
        of shuffle an sampleSize "[0..<nat (sint iterations)]" n rd]
    by blast
  have "\<not> max_size 8 < min_caar_size bs" "\<not> max_size 8 < min_caar_size ms"
    "\<not> max_size 8 < min_caar_size ss"
    using min_caar_size_ok [OF _ pos] ok by (simp_all add: not_less)
  then show ?thesis
    using small loop
    by (simp add: performBootstrapping_def n_def [symmetric] resize_def Let_def)
qed

text \<open>
  The claim C3 fails for \<^verbatim>\<open>sampleSize\<close>: with \<^verbatim>\<open>sampleSize\<close> 0 and with
  \<^verbatim>\<open>sampleSize\<close> -1, one iteration over a Beat group of two members, a Meet group of
  one and an empty Miss group returns averaged sequences, and \<^verbatim>\<open>sampleStocks\<close> returns
  a sample.
\<close>

theorem bootstrap_nonpositive_sample_counterexample:
  "sint (0 :: 32 word) \<le> 0 \<and>
   performBootstrapping rev_shuffle pair_heap (analyzer_of [0, 1] [1] []) 0 1 zero_device =
     Inr (([], [], []), stl (stl zero_device)) \<and>
   sampleStocks rev_shuffle (beatGroup (analyzer_of [0, 1] [1] [])) 0 zero_device =
     ([], stl zero_device) \<and>
   sint (- 1 :: 32 word) \<le> 0 \<and>
   performBootstrapping rev_shuffle pair_heap (analyzer_of [0, 1] [1] []) (- 1) 1 zero_device =
     Inr (([2 / 100, 4 / 100], [3 / 100, 5 / 100], []), zero_device) \<and>
   sampleStocks rev_shuffle (beatGroup (analyzer_of [0, 1] [1] [])) (- 1) zero_device =
     ([0, 1], zero_device)"
proof -
  let ?an = "analyzer_of [0, 1] [1] []"
  have zero: "performBootstrapping rev_shuffle pair_heap ?an 0 1 zero_device =
     Inr (([], [], []), stl (stl zero_device))"
    and zero_sample: "sampleStocks rev_shuffle (beatGroup ?an) 0 zero_device = ([], stl zero_device)"
    by (simp_all add: performBootstrapping_one bootstrap_iteration_def sampleStocks_def
        size_t_of_int_0 analyzer_of_simps new_Group_def calculateAAR_def calculateCAAR_def)
  have s1: "sampleStocks rev_shuffle (beatGroup ?an) (- 1) zero_device = ([0, 1], zero_device)"
    and s2: "sampleStocks rev_shuffle (meetGroup ?an) (- 1) zero_device = ([1], zero_device)"
    and s3: "sampleStocks rev_shuffle (missGroup ?an) (- 1) zero_device = ([], zero_device)"
    by (simp_all add: sampleStocks_def size_t_of_int_minus_1 analyzer_of_simps new_Group_def)
  have b: "calculateAAR pair_heap (fold addStock [0, 1] (new_Group nm)) =
           Inr ((new_Group nm)\<lparr>stocks := [0, 1], aar := [2 / 100, 2 / 100]\<rparr>)" for nm
    using calculateAAR_general [of "(new_Group nm)\<lparr>stocks := [0, 1]\<rparr>" pair_heap]
    by (simp add: addStock_def new_Group_def pair_heap_def new_Stock_def upt_rec)
  have m: "calculateAAR pair_heap (fold addStock [1] (new_Group nm)) =
           Inr ((new_Group nm)\<lparr>stocks := [1], aar := [3 / 100, 2 / 100]\<rparr>)" for nm
    using calculateAAR_general [of "(new_Group nm)\<lparr>stocks := [1]\<rparr>" pair_heap]
    by (simp add: addStock_def new_Group_def pair_heap_def new_Stock_def upt_rec)
  have e: "calculateAAR pair_heap (fold addStock [] (new_Group nm)) = Inr (new_Group nm)" for nm
    by (simp add: calculateAAR_def new_Group_def)
  have neg: "performBootstrapping rev_shuffle pair_heap ?an (- 1) 1 zero_device =
     Inr (([2 / 100, 4 / 100], [3 / 100, 5 / 100], []), zero_device)"
    using bootstrap_iteration_run [OF s1 s2 s3 b m e]
    by (simp add: performBootstrapping_one calculateCAAR_def new_Group_def)
  note neg_sample = s1
  from zero zero_sample neg neg_sample show ?thesis by simp
qed

text \<open>
  C3, amended. The methods validate nothing. An \<^verbatim>\<open>iterations\<close> that is 0 or negative
  makes \<^verbatim>\<open>performBootstrapping\<close> throw \<^verbatim>\<open>std::length_error\<close> before it produces
  anything: from the constructor of the vectors when negative, from the resize to
  \<^verbatim>\<open>SIZE_MAX\<close> when 0. A \<^verbatim>\<open>sampleSize\<close> that is 0 or negative is accepted:
  \<^verbatim>\<open>sampleStocks\<close> returns the empty sample for 0 and, for a group a vector can hold,
  all members for a negative value; with a positive \<^verbatim>\<open>iterations\<close>,
  \<^verbatim>\<open>performBootstrapping\<close> returns its averaged sequences for every \<^verbatim>\<open>sampleSize\<close>
  when every stock has fewer than \<open>2^31\<close> abnormal returns, and they are empty when
  \<^verbatim>\<open>sampleSize\<close> is 0.
\<close>

theorem bootstrap_arguments_not_validated:
  "(sint iterations \<le> 0 \<longrightarrow>
      performBootstrapping shuffle h an sampleSize iterations rd = Inl LengthError) \<and>
   (0 < sint iterations \<and> (\<forall>p. length (abnormalReturns (h p)) < 2 ^ 31) \<longrightarrow>
      (\<exists>r. performBootstrapping shuffle h an sampleSize iterations rd = Inr r)) \<and>
   (0 < sint iterations \<longrightarrow>
      (\<exists>rd'. performBootstrapping shuffle h an 0 iterations rd = Inr (([], [], []), rd'))) \<and>
   fst (sampleStocks shuffle g 0 rd) = [] \<and>
   (sint sampleSize < 0 \<and> length (stocks g) \<le> max_size 8 \<longrightarrow>
      sampleStocks shuffle g sampleSize rd = (stocks g, rd))"
proof (intro conjI impI)
  assume "sint iterations \<le> 0"
  then show "performBootstrapping shuffle h an sampleSize iterations rd = Inl LengthError"
    by (rule performBootstrapping_iterations_nonpositive)
next
  assume "0 < sint iterations \<and> (\<forall>p. length (abnormalReturns (h p)) < 2 ^ 31)"
  then show "\<exists>r. performBootstrapping shuffle h an sampleSize iterations rd = Inr r"
    using performBootstrapping_ok [of iterations h] by blast
next
  assume "0 < sint iterations"
  then show "\<exists>rd'. performBootstrapping shuffle h an 0 iterations rd = Inr (([], [], []), rd')"
    by (rule performBootstrapping_zero_sample)
next
  show "fst (sampleStocks shuffle g 0 rd) = []"
    by (rule sampleStocks_zero)
next
  assume "sint sampleSize < 0 \<and> length (stocks g) \<le> max_size 8"
  then have neg: "sint sampleSize < 0" and "length (stocks g) \<le> 2 ^ 60 - 1"
    by (simp_all add: max_size_8)
  moreover from neg have "2 ^ 64 - 2 ^ 31 \<le> size_t_of_int sampleSize"
    by (rule size_t_of_int_neg_large)
  ultimately have "length (stocks g) \<le> size_t_of_int sampleSize"
    by simp
  then show "sampleStocks shuffle g sampleSize rd = (stocks g, rd)"
    by (simp add: sampleStocks_def)
qed

theorem bootstrap_arguments_not_validated_witness:
  "sint (- 3 :: 32 word) \<le> 0 \<and>
   performBootstrapping rev_shuffle pair_heap (analyzer_of [0, 1] [1] []) 1 (- 3) zero_device =
     Inl LengthError \<and>
   sint (0 :: 32 word) \<le> 0 \<and>
   performBootstrapping rev_shuffle pair_heap (analyzer_of [0, 1] [1] []) (- 1) 0 zero_device =
     Inl LengthError \<and>
   0 < sint (2 :: 32 word) \<and>
   (\<exists>r. performBootstrapping rev_shuffle pair_heap (analyzer_of [0, 1] [1] []) (- 1) 2
          zero_device = Inr r) \<and>
   (\<exists>rd'. performBootstrapping rev_shuffle pair_heap (analyzer_of [0, 1] [1] []) 0 2
          zero_device = Inr (([], [], []), rd')) \<and>
   sint (- 1 :: 32 word) < 0 \<and> length (stocks (group_of [0, 1])) \<le> max_size 8 \<and>
   sampleStocks rev_shuffle (group_of [0, 1]) (- 1) zero_device = ([0, 1], zero_device) \<and>
   fst (sampleStocks rev_shuffle (group_of [0, 1]) 0 zero_device) = []"
proof -
  have fit: "\<forall>p. length (abnormalReturns (pair_heap p)) < 2 ^ 31"
    by (simp add: pair_heap_def new_Stock_def)
  show ?thesis
    using bootstrap_arguments_not_validated
        [of "- 3" rev_shuffle pair_heap "analyzer_of [0, 1] [1] []" 1 zero_device "group_of [0, 1]"]
      bootstrap_arguments_not_validated
        [of 0 rev_shuffle pair_heap "analyzer_of [0, 1] [1] []" "- 1" zero_device "group_of [0, 1]"]
      bootstrap_arguments_not_validated
        [of 2 rev_shuffle pair_heap "analyzer_of [0, 1] [1] []" "- 1" zero_device "group_of [0, 1]"]
      fit
    by (simp add: group_of_simps max_size_8)
qed

end
